theory Spec2Isabelle
  imports Main
begin

section \<open>Session bootstrap and role-based routing of \<open>App.jsx\<close>\<close>

text \<open>
  The component \<open>App\<close> of \<open>src/App.jsx\<close> keeps two pieces of React state, \<open>user\<close>
  and \<open>loading\<close>, reads the browser's \<open>localStorage\<close> once when it is mounted, and
  renders a table of routes whose elements depend on \<open>user\<close> only. The embedding
  below passes that state explicitly. A JavaScript value that is either \<open>null\<close>
  (or \<open>undefined\<close>) or a string is a \<open>string option\<close>.
\<close>

subsection \<open>Persisted storage\<close>

type_synonym storage = "string \<rightharpoonup> string"

text \<open>\<open>localStorage.getItem(k)\<close>: the stored string, or \<open>null\<close> for a missing key.\<close>

definition getItem :: "storage \<Rightarrow> string \<Rightarrow> string option" where
  "getItem st k = st k"

text \<open>\<open>localStorage.clear()\<close> removes every key.\<close>

definition clear :: "storage \<Rightarrow> storage" where
  "clear st = Map.empty"

text \<open>
  Truthiness of a value that is \<open>null\<close> or a string, as \<open>&&\<close> and \<open>if\<close> test it:
  \<open>null\<close> and the empty string are falsy, every other string is truthy.
\<close>

definition truthy :: "string option \<Rightarrow> bool" where
  "truthy v = (case v of None \<Rightarrow> False | Some s \<Rightarrow> s \<noteq> [])"

subsection \<open>The state of \<open>App\<close>\<close>

text \<open>The object \<open>{ token, role, user_id, name }\<close> held in \<open>user\<close>.\<close>

record userData =
  token :: "string option"
  role :: "string option"
  user_id :: "string option"
  name :: "string option"

record app =
  localStorage :: storage
  user :: "userData option"
  loading :: bool

text \<open>\<open>useState(null)\<close> and \<open>useState(true)\<close>, over a given storage.\<close>

definition useState :: "storage \<Rightarrow> app" where
  "useState st = \<lparr>localStorage = st, user = None, loading = True\<rparr>"

text \<open>The effect that runs once after mounting (lines 16 to 26).\<close>

definition useEffect :: "app \<Rightarrow> app" where
  "useEffect s =
     (let token = getItem (localStorage s) ''token'';
          role = getItem (localStorage s) ''role'';
          user_id = getItem (localStorage s) ''user_id'';
          name = getItem (localStorage s) ''user_name'';
          s' = (if truthy token \<and> truthy role
                then s\<lparr>user := Some \<lparr>token = token, role = role,
                                      user_id = user_id, name = name\<rparr>\<rparr>
                else s)
      in s'\<lparr>loading := False\<rparr>)"

text \<open>
  The session a freshly started process finds in a storage: mount \<open>App\<close> and read
  \<open>user\<close> once the effect has run.
\<close>

definition bootstrap :: "storage \<Rightarrow> userData option" where
  "bootstrap st = user (useEffect (useState st))"

definition handleLogin :: "userData \<Rightarrow> app \<Rightarrow> app" where
  "handleLogin userData s = s\<lparr>user := Some userData\<rparr>"

definition handleLogout :: "app \<Rightarrow> app" where
  "handleLogout s = s\<lparr>localStorage := clear (localStorage s), user := None\<rparr>"

subsection \<open>The route table\<close>

datatype view =
    Login | Signup | StudentDashboard | TeacherDashboard | CounselorDashboard
  | StudentQuestionnaire | Chat

text \<open>
  A route's element is either a page or \<open><Navigate to=... />\<close>, which sends the
  browser to another path.
\<close>

datatype decision = Render view | Navigate string

abbreviation RedirectTo :: "string \<Rightarrow> decision" where
  "RedirectTo \<equiv> Navigate"

record route =
  path :: string
  element :: "userData option \<Rightarrow> decision"

text \<open>\<open>user?.role\<close>: \<open>undefined\<close> when \<open>user\<close> is \<open>null\<close>.\<close>

definition optional_role :: "userData option \<Rightarrow> string option" where
  "optional_role u = (case u of None \<Rightarrow> None | Some x \<Rightarrow> role x)"

text \<open>The children of \<open><Routes>\<close> (lines 50 to 94), in the order they are written.\<close>

definition Routes :: "route list" where
  "Routes =
    [\<lparr>path = ''/login'',
      element = (\<lambda>u. if u = None then Render Login else Navigate ''/'')\<rparr>,
     \<lparr>path = ''/signup'',
      element = (\<lambda>u. if u = None then Render Signup else Navigate ''/'')\<rparr>,
     \<lparr>path = ''/'',
      element = (\<lambda>u. case u of
                   Some x \<Rightarrow>
                     (if role x = Some ''student'' then Render StudentDashboard
                      else if role x = Some ''teacher'' then Render TeacherDashboard
                      else Render CounselorDashboard)
                 | None \<Rightarrow> Navigate ''/login'')\<rparr>,
     \<lparr>path = ''/student'',
      element = (\<lambda>u. if optional_role u = Some ''student''
                     then Render StudentDashboard else Navigate ''/'')\<rparr>,
     \<lparr>path = ''/questionnaire'',
      element = (\<lambda>u. if optional_role u = Some ''student''
                     then Render StudentQuestionnaire else Navigate ''/'')\<rparr>,
     \<lparr>path = ''/teacher'',
      element = (\<lambda>u. if optional_role u = Some ''teacher''
                     then Render TeacherDashboard else Navigate ''/'')\<rparr>,
     \<lparr>path = ''/counselor'',
      element = (\<lambda>u. if optional_role u = Some ''counselor''
                     then Render CounselorDashboard else Navigate ''/'')\<rparr>,
     \<lparr>path = ''/chat'',
      element = (\<lambda>u. if u \<noteq> None then Render Chat else Navigate ''/login'')\<rparr>,
     \<lparr>path = ''*'',
      element = (\<lambda>u. Navigate ''/'')\<rparr>]"

subsection \<open>Matching a pathname\<close>

text \<open>
  Which route a pathname selects is decided by the router library, whose code is not part
  of the repository. What it does with the table above is modelled here. A string is a
  list of bytes, a character outside ASCII being its UTF-8 bytes.

  The router first decodes the pathname: it is cut at the slashes, each piece goes through
  \<open>decodeURIComponent\<close>, a slash that the decoding produces is written back as \<open>%2F\<close>,
  and the pieces are joined again. \<open>decodeURIComponent\<close> fails on a \<open>%\<close> that is not
  followed by two hexadecimal digits and on escaped bytes that are not the UTF-8 encoding
  of a code point; when one piece fails, the pathname is matched as it was given.
\<close>

definition hexDigit :: "char \<Rightarrow> nat option" where
  "hexDigit c =
     map_of (zip ''0123456789abcdefABCDEF''
                 [0, 1, 2, 3, 4, 5, 6, 7, 8, 9, 10, 11, 12, 13, 14, 15,
                  10, 11, 12, 13, 14, 15]) c"

definition byteChar :: "nat \<Rightarrow> char" where
  "byteChar b =
     Char (odd b) (odd (b div 2)) (odd (b div 4)) (odd (b div 8))
          (odd (b div 16)) (odd (b div 32)) (odd (b div 64)) (odd (b div 128))"

datatype piece = Plain char | Escaped nat

text \<open>Reading the escapes \<open>%XX\<close> of a string; \<open>None\<close> is the \<open>URIError\<close>.\<close>

fun unescape :: "string \<Rightarrow> piece list option" where
  "unescape [] = Some []"
| "unescape (c # cs) =
     (if c = CHR ''%'' then
        (case cs of
           h # l # rest \<Rightarrow>
             (case (hexDigit h, hexDigit l) of
                (Some a, Some b) \<Rightarrow> map_option (Cons (Escaped (16 * a + b))) (unescape rest)
              | _ \<Rightarrow> None)
         | _ \<Rightarrow> None)
      else map_option (Cons (Plain c)) (unescape cs))"

definition continuation :: "nat \<Rightarrow> bool" where
  "continuation b \<longleftrightarrow> 128 \<le> b \<and> b \<le> 191"

text \<open>
  An escaped byte below 128 is an ASCII character. A larger one must start a well-formed
  UTF-8 sequence of two, three or four escaped bytes (no overlong form, no surrogate,
  nothing above U+10FFFF).
\<close>

fun utf8 :: "piece list \<Rightarrow> string option" where
  "utf8 [] = Some []"
| "utf8 (Plain c # ts) = map_option (Cons c) (utf8 ts)"
| "utf8 (Escaped b # ts) =
     (if b < 128 then map_option (Cons (byteChar b)) (utf8 ts)
      else if 194 \<le> b \<and> b \<le> 223 then
        (case ts of
           Escaped c # ts' \<Rightarrow>
             (if continuation c
              then map_option (\<lambda>s. byteChar b # byteChar c # s) (utf8 ts') else None)
         | _ \<Rightarrow> None)
      else if 224 \<le> b \<and> b \<le> 239 then
        (case ts of
           Escaped c # Escaped d # ts' \<Rightarrow>
             (if (if b = 224 then 160 \<le> c \<and> c \<le> 191
                  else if b = 237 then 128 \<le> c \<and> c \<le> 159
                  else continuation c) \<and> continuation d
              then map_option (\<lambda>s. byteChar b # byteChar c # byteChar d # s) (utf8 ts')
              else None)
         | _ \<Rightarrow> None)
      else if 240 \<le> b \<and> b \<le> 244 then
        (case ts of
           Escaped c # Escaped d # Escaped e # ts' \<Rightarrow>
             (if (if b = 240 then 144 \<le> c \<and> c \<le> 191
                  else if b = 244 then 128 \<le> c \<and> c \<le> 143
                  else continuation c) \<and> continuation d \<and> continuation e
              then map_option (\<lambda>s. byteChar b # byteChar c # byteChar d # byteChar e # s)
                     (utf8 ts')
              else None)
         | _ \<Rightarrow> None)
      else None)"

definition decodeURIComponent :: "string \<Rightarrow> string option" where
  "decodeURIComponent s = (case unescape s of None \<Rightarrow> None | Some ts \<Rightarrow> utf8 ts)"

text \<open>\<open>value.split("/")\<close> and \<open>.join("/")\<close>.\<close>

fun splitSlash :: "string \<Rightarrow> string list" where
  "splitSlash [] = [[]]"
| "splitSlash (c # cs) =
     (if c = CHR ''/'' then [] # splitSlash cs
      else (case splitSlash cs of s # ss \<Rightarrow> (c # s) # ss | [] \<Rightarrow> [[c]]))"

fun joinSlash :: "string list \<Rightarrow> string" where
  "joinSlash [] = []"
| "joinSlash [s] = s"
| "joinSlash (s # t # ss) = s @ CHR ''/'' # joinSlash (t # ss)"

text \<open>\<open>.replace(/\//g, "%2F")\<close> on a decoded piece.\<close>

definition escapeSlashes :: "string \<Rightarrow> string" where
  "escapeSlashes s = concat (map (\<lambda>c. if c = CHR ''/'' then ''%2F'' else [c]) s)"

fun decodeAll :: "string list \<Rightarrow> string list option" where
  "decodeAll [] = Some []"
| "decodeAll (v # vs) =
     (case decodeURIComponent v of
        None \<Rightarrow> None
      | Some d \<Rightarrow> map_option (Cons (escapeSlashes d)) (decodeAll vs))"

definition decodePath :: "string \<Rightarrow> string" where
  "decodePath v = (case decodeAll (splitSlash v) of None \<Rightarrow> v | Some vs \<Rightarrow> joinSlash vs)"

text \<open>
  The decoded pathname is then tried against the path of each route. The paths of the
  table are of two kinds. A literal path such as \<open>/login\<close> is compiled to the regular
  expression \<open>^/login\/*$\<close> with the flag \<open>i\<close>, and \<open>/\<close> to \<open>^/\/*$\<close>: the pathname is
  not empty, and without the slashes at its end it is the path without the slashes at its
  end, ASCII letters compared without regard to case. The path \<open>*\<close> is compiled to
  \<open>^/(.*)$\<close>: the pathname begins with a slash, and no line terminator (line feed,
  carriage return, U+2028, U+2029) follows, since \<open>.\<close> matches none.
\<close>

definition toLowerCase :: "char \<Rightarrow> char" where
  "toLowerCase c =
     (case map_of (zip ''ABCDEFGHIJKLMNOPQRSTUVWXYZ'' ''abcdefghijklmnopqrstuvwxyz'') c of
        Some d \<Rightarrow> d
      | None \<Rightarrow> c)"

definition stripTrailingSlashes :: "string \<Rightarrow> string" where
  "stripTrailingSlashes p = rev (dropWhile (\<lambda>c. c = CHR ''/'') (rev p))"

fun hasLineTerminator :: "string \<Rightarrow> bool" where
  "hasLineTerminator [] = False"
| "hasLineTerminator (c # cs) =
     (c = CHR 0x0A \<or> c = CHR 0x0D
      \<or> (c = CHR 0xE2 \<and>
           (case cs of
              d # e # _ \<Rightarrow> d = CHR 0x80 \<and> (e = CHR 0xA8 \<or> e = CHR 0xA9)
            | _ \<Rightarrow> False))
      \<or> hasLineTerminator cs)"

definition matchPath :: "string \<Rightarrow> string \<Rightarrow> bool" where
  "matchPath pattern pathname =
     (if pattern = ''*''
      then (case pathname of
              [] \<Rightarrow> False
            | c # rest \<Rightarrow> c = CHR ''/'' \<and> \<not> hasLineTerminator rest)
      else pathname \<noteq> [] \<and>
           map toLowerCase (stripTrailingSlashes pathname) =
           map toLowerCase (stripTrailingSlashes pattern))"

text \<open>
  The element of the selected route, for a relation \<open>m\<close> that says which path matches
  which pathname. \<open>None\<close> stands for a \<open><Routes>\<close> that finds no route and renders
  nothing. The library prefers a route with a literal path to \<open>*\<close>; no pathname matches
  two of the literal paths of \<open>Routes\<close> (\<open>literal_paths_exclusive\<close> below), and \<open>*\<close>
  is written last, so taking the first matching route in the written order selects the
  same route.
\<close>

definition decideWith ::
  "(string \<Rightarrow> string \<Rightarrow> bool) \<Rightarrow> userData option \<Rightarrow> string \<Rightarrow> decision option" where
  "decideWith m u pathname =
     map_option (\<lambda>r. element r u) (find (\<lambda>r. m (path r) pathname) Routes)"

text \<open>
  The decision for a session and a pathname as the browser's location gives it (it
  begins with a slash there): the pathname is decoded and matched as described.
\<close>

definition decide :: "userData option \<Rightarrow> string \<Rightarrow> decision option" where
  "decide u pathname = decideWith matchPath u (decodePath pathname)"

text \<open>
  Following \<open>Navigate\<close> elements from a pathname until a page is rendered, for at most
  the given number of decisions: the pathname the browser ends on and the page shown there.
\<close>

fun settle :: "nat \<Rightarrow> userData option \<Rightarrow> string \<Rightarrow> (string \<times> view) option" where
  "settle 0 u pathname = None"
| "settle (Suc n) u pathname =
     (case decide u pathname of
        None \<Rightarrow> None
      | Some (Render v) \<Rightarrow> Some (pathname, v)
      | Some (Navigate to) \<Rightarrow> settle n u to)"

text \<open>
  What \<open>App\<close> returns for a state and a pathname: the loading placeholder while
  \<open>loading\<close> is set (line 37), the routed content afterwards.
\<close>

datatype screen = Loading | Routed "decision option"

definition App :: "app \<Rightarrow> string \<Rightarrow> screen" where
  "App s pathname = (if loading s then Loading else Routed (decide (user s) pathname))"

text \<open>
  A session object all four of whose fields are present, in the words of the
  specification's data model (token, role, userId and displayName all present).
\<close>

definition fully_populated :: "userData \<Rightarrow> bool" where
  "fully_populated x \<longleftrightarrow>
     token x \<noteq> None \<and> role x \<noteq> None \<and> user_id x \<noteq> None \<and> name x \<noteq> None"

section \<open>Decisions at the declared paths\<close>

lemmas decode_defs =
  decodePath_def decodeURIComponent_def escapeSlashes_def hexDigit_def byteChar_def
  continuation_def

lemmas match_defs = matchPath_def stripTrailingSlashes_def toLowerCase_def

lemma decodePath_literals:
  "decodePath ''/login'' = ''/login''"
  "decodePath ''/signup'' = ''/signup''"
  "decodePath ''/'' = ''/''"
  "decodePath ''/student'' = ''/student''"
  "decodePath ''/questionnaire'' = ''/questionnaire''"
  "decodePath ''/teacher'' = ''/teacher''"
  "decodePath ''/counselor'' = ''/counselor''"
  "decodePath ''/chat'' = ''/chat''"
  by (simp_all add: decode_defs)

lemma decide_login:
  "decide u ''/login'' = Some (if u = None then Render Login else Navigate ''/'')"
  by (simp add: decide_def decodePath_literals decideWith_def Routes_def match_defs)

lemma decide_signup:
  "decide u ''/signup'' = Some (if u = None then Render Signup else Navigate ''/'')"
  by (simp add: decide_def decodePath_literals decideWith_def Routes_def match_defs)

lemma decide_root_absent: "decide None ''/'' = Some (Navigate ''/login'')"
  by (simp add: decide_def decodePath_literals decideWith_def Routes_def match_defs)

lemma decide_root_present:
  "decide (Some x) ''/'' =
     Some (if role x = Some ''student'' then Render StudentDashboard
           else if role x = Some ''teacher'' then Render TeacherDashboard
           else Render CounselorDashboard)"
  by (simp add: decide_def decodePath_literals decideWith_def Routes_def match_defs)

lemma decide_student:
  "decide u ''/student'' =
     Some (if optional_role u = Some ''student'' then Render StudentDashboard
           else Navigate ''/'')"
  by (simp add: decide_def decodePath_literals decideWith_def Routes_def match_defs)

lemma decide_questionnaire:
  "decide u ''/questionnaire'' =
     Some (if optional_role u = Some ''student'' then Render StudentQuestionnaire
           else Navigate ''/'')"
  by (simp add: decide_def decodePath_literals decideWith_def Routes_def match_defs)

lemma decide_teacher:
  "decide u ''/teacher'' =
     Some (if optional_role u = Some ''teacher'' then Render TeacherDashboard
           else Navigate ''/'')"
  by (simp add: decide_def decodePath_literals decideWith_def Routes_def match_defs)

lemma decide_counselor:
  "decide u ''/counselor'' =
     Some (if optional_role u = Some ''counselor'' then Render CounselorDashboard
           else Navigate ''/'')"
  by (simp add: decide_def decodePath_literals decideWith_def Routes_def match_defs)

lemma decide_chat:
  "decide u ''/chat'' = Some (if u \<noteq> None then Render Chat else Navigate ''/login'')"
  by (simp add: decide_def decodePath_literals decideWith_def Routes_def match_defs)

text \<open>The decoding and the flag \<open>i\<close> at work: an escaped letter, capitals, a slash at the end.\<close>

lemma decide_login_escaped: "decide None ''/%6Cogin'' = Some (Render Login)"
  by (simp add: decide_def decode_defs decideWith_def Routes_def match_defs)

lemma decide_login_capitals: "decide None ''/LOGIN/'' = Some (Render Login)"
  by (simp add: decide_def decode_defs decideWith_def Routes_def match_defs)

text \<open>What the wildcard matches, and what \<open>decideWith\<close> gives where it does.\<close>

lemma matchPath_wildcard_iff:
  "matchPath ''*'' p \<longleftrightarrow> (\<exists>rest. p = CHR ''/'' # rest \<and> \<not> hasLineTerminator rest)"
  by (cases p) (auto simp: matchPath_def)




lemma decideWith_none:
  assumes "\<forall>r \<in> set Routes. \<not> m (path r) p"
  shows "decideWith m u p = None"
  using assms by (simp add: decideWith_def find_None_iff)

lemma paths_of_Routes:
  "map path Routes =
     [''/login'', ''/signup'', ''/'', ''/student'', ''/questionnaire'', ''/teacher'',
      ''/counselor'', ''/chat'', ''*'']"
  by (simp add: Routes_def)

text \<open>
  No pathname matches two different literal paths of the table, so the order in which
  the literal routes are written does not matter.
\<close>

lemma literal_normal_forms:
  "map toLowerCase (stripTrailingSlashes ''/login'') = ''/login''"
  "map toLowerCase (stripTrailingSlashes ''/signup'') = ''/signup''"
  "map toLowerCase (stripTrailingSlashes ''/'') = []"
  "map toLowerCase (stripTrailingSlashes ''/student'') = ''/student''"
  "map toLowerCase (stripTrailingSlashes ''/questionnaire'') = ''/questionnaire''"
  "map toLowerCase (stripTrailingSlashes ''/teacher'') = ''/teacher''"
  "map toLowerCase (stripTrailingSlashes ''/counselor'') = ''/counselor''"
  "map toLowerCase (stripTrailingSlashes ''/chat'') = ''/chat''"
  by (simp_all add: stripTrailingSlashes_def toLowerCase_def)

lemma literal_paths_exclusive:
  assumes "q \<in> set (map path Routes)" "q' \<in> set (map path Routes)"
    and "q \<noteq> ''*''" "q' \<noteq> ''*''"
    and "matchPath q p" "matchPath q' p"
  shows "q = q'"
proof -
  have same:
    "map toLowerCase (stripTrailingSlashes q) = map toLowerCase (stripTrailingSlashes q')"
    using assms(3-6) by (simp add: matchPath_def)
  have q: "q \<in> {''/login'', ''/signup'', ''/'', ''/student'', ''/questionnaire'',
      ''/teacher'', ''/counselor'', ''/chat''}"
    using assms(1,3) by (simp add: paths_of_Routes)
  have q': "q' \<in> {''/login'', ''/signup'', ''/'', ''/student'', ''/questionnaire'',
      ''/teacher'', ''/counselor'', ''/chat''}"
    using assms(2,4) by (simp add: paths_of_Routes)
  show ?thesis
    using q q' same by (auto simp: literal_normal_forms)
qed

lemma App_before_effect: "App (useState st) p = Loading"
  by (simp add: App_def useState_def)

lemma App_after_effect: "App (useEffect (useState st)) p = Routed (decide (bootstrap st) p)"
  by (simp add: App_def bootstrap_def) (simp add: useEffect_def Let_def)

section \<open>Bootstrap\<close>

lemma bootstrap_eq:
  "bootstrap st =
     (if truthy (st ''token'') \<and> truthy (st ''role'')
      then Some \<lparr>token = st ''token'', role = st ''role'',
                 user_id = st ''user_id'', name = st ''user_name''\<rparr>
      else None)"
  by (simp add: bootstrap_def useEffect_def useState_def getItem_def Let_def)

lemma truthy_iff: "truthy v \<longleftrightarrow> (\<exists>s. v = Some s \<and> s \<noteq> [])"
  by (cases v) (simp_all add: truthy_def)

section \<open>The claims\<close>

text \<open>
  C1. The claim: for an absent session the decision at every path that requires a
  specific role (\<open>/teacher\<close>, \<open>/student\<close>, \<open>/questionnaire\<close>, \<open>/counselor\<close>) is
  \<open>RedirectTo "/login"\<close>. The elements of these routes test \<open>user?.role\<close> and send
  everybody else, the absent session included, to \<open>/\<close>: at \<open>/teacher\<close> the decision
  is not \<open>RedirectTo "/login"\<close>.
\<close>

theorem C1_absent_teacher_not_login:
  "decide None ''/teacher'' = Some (RedirectTo ''/'')
   \<and> decide None ''/teacher'' \<noteq> Some (RedirectTo ''/login'')"
  by (simp add: decide_teacher optional_role_def)

text \<open>
  C1, as the code has it: for an absent session the decision at each of the four
  role-specific paths is \<open>RedirectTo "/"\<close>, and the decision at \<open>/\<close> is
  \<open>RedirectTo "/login"\<close>; following the two redirections the browser ends on
  \<open>/login\<close> showing the login page.
\<close>

theorem C1_absent_role_paths:
  "p \<in> {''/student'', ''/questionnaire'', ''/teacher'', ''/counselor''} \<Longrightarrow>
     decide None p = Some (RedirectTo ''/'')
     \<and> decide None ''/'' = Some (RedirectTo ''/login'')
     \<and> settle 3 None p = Some (''/login'', Login)"
proof -
  assume declared: "p \<in> {''/student'', ''/questionnaire'', ''/teacher'', ''/counselor''}"
  have root: "decide None ''/'' = Some (RedirectTo ''/login'')"
    by (rule decide_root_absent)
  have here: "decide None p = Some (RedirectTo ''/'')"
    using declared
    by (auto simp: decide_student decide_questionnaire decide_teacher decide_counselor
        optional_role_def)
  have "settle 3 None p = settle 2 None ''/''"
    using here by (simp add: numeral_3_eq_3 numeral_2_eq_2)
  also have "\<dots> = settle 1 None ''/login''"
    using root by (simp add: numeral_2_eq_2)
  also have "\<dots> = Some (''/login'', Login)"
    by (simp add: decide_login)
  finally have "settle 3 None p = Some (''/login'', Login)" .
  with here root show ?thesis by simp
qed

theorem C1_absent_role_paths_witness:
  "''/teacher'' \<in> {''/student'', ''/questionnaire'', ''/teacher'', ''/counselor''}
   \<and> decide None ''/teacher'' = Some (RedirectTo ''/'')
   \<and> decide None ''/'' = Some (RedirectTo ''/login'')
   \<and> settle 3 None ''/teacher'' = Some (''/login'', Login)"
  using C1_absent_role_paths [of "''/teacher''"] by simp

text \<open>
  C2. \<open>bootstrap\<close> returns a session if and only if the persisted \<open>token\<close> and
  \<open>role\<close> are both present and non-empty; in every other state of the storage it
  returns \<open>None\<close>. It is a total function of the storage: there is no storage on which
  it fails.
\<close>

theorem C2_bootstrap_some_iff:
  "((\<exists>x. bootstrap st = Some x) \<longleftrightarrow>
      (\<exists>t r. st ''token'' = Some t \<and> t \<noteq> [] \<and> st ''role'' = Some r \<and> r \<noteq> []))
   \<and> (bootstrap st = None \<longleftrightarrow>
      \<not> (\<exists>t r. st ''token'' = Some t \<and> t \<noteq> [] \<and> st ''role'' = Some r \<and> r \<noteq> []))"
  by (auto simp: bootstrap_eq truthy_iff)

theorem C2_bootstrap_some_iff_witness:
  "(\<exists>x. bootstrap [''token'' \<mapsto> ''abc'', ''role'' \<mapsto> ''teacher''] = Some x)
   \<and> bootstrap [''role'' \<mapsto> ''student''] = None
   \<and> bootstrap [''token'' \<mapsto> ''abc''] = None
   \<and> bootstrap [''token'' \<mapsto> [], ''role'' \<mapsto> ''student''] = None
   \<and> bootstrap [''token'' \<mapsto> ''abc'', ''role'' \<mapsto> []] = None"
  using C2_bootstrap_some_iff [of "[''token'' \<mapsto> ''abc'', ''role'' \<mapsto> ''teacher'']"]
    C2_bootstrap_some_iff [of "[''role'' \<mapsto> ''student'']"]
    C2_bootstrap_some_iff [of "[''token'' \<mapsto> ''abc'']"]
    C2_bootstrap_some_iff [of "[''token'' \<mapsto> [], ''role'' \<mapsto> ''student'']"]
    C2_bootstrap_some_iff [of "[''token'' \<mapsto> ''abc'', ''role'' \<mapsto> []]"]
  by simp

text \<open>
  C3. The claim: whenever \<open>bootstrap\<close> produces a session, all four of its fields are
  present. The effect tests \<open>token && role\<close> and nothing else: a storage that holds a
  token and a role but neither \<open>user_id\<close> nor \<open>user_name\<close> gives a session whose
  \<open>user_id\<close> and \<open>name\<close> are \<open>null\<close>.
\<close>

theorem C3_partial_session:
  "bootstrap [''token'' \<mapsto> ''abc'', ''role'' \<mapsto> ''teacher'']
     = Some \<lparr>token = Some ''abc'', role = Some ''teacher'', user_id = None, name = None\<rparr>
   \<and> \<not> fully_populated
         \<lparr>token = Some ''abc'', role = Some ''teacher'', user_id = None, name = None\<rparr>"
  by (simp add: bootstrap_eq truthy_def fully_populated_def)

text \<open>
  C3, as the code has it: whenever \<open>bootstrap\<close> produces a session, its token and role
  are present and non-empty, and its four fields are what the storage holds under
  \<open>token\<close>, \<open>role\<close>, \<open>user_id\<close> and \<open>user_name\<close> (the last two possibly absent); a
  storage with no role, whatever its token, yields an absent session.
\<close>

theorem C3_bootstrap_session:
  "(bootstrap st = Some x \<longrightarrow>
      (\<exists>t. token x = Some t \<and> t \<noteq> []) \<and> (\<exists>r. role x = Some r \<and> r \<noteq> [])
      \<and> token x = st ''token'' \<and> role x = st ''role''
      \<and> user_id x = st ''user_id'' \<and> name x = st ''user_name'')
   \<and> (st' ''role'' = None \<longrightarrow> bootstrap st' = None)"
  by (auto simp: bootstrap_eq truthy_iff split: if_splits)

theorem C3_bootstrap_session_witness:
  "bootstrap [''token'' \<mapsto> ''abc'', ''role'' \<mapsto> ''teacher'', ''user_id'' \<mapsto> ''7'']
     = Some \<lparr>token = Some ''abc'', role = Some ''teacher'', user_id = Some ''7'', name = None\<rparr>
   \<and> token \<lparr>token = Some ''abc'', role = Some ''teacher'', user_id = Some ''7'', name = None\<rparr>
       = [''token'' \<mapsto> ''abc'', ''role'' \<mapsto> ''teacher'', ''user_id'' \<mapsto> ''7''] ''token''
   \<and> name \<lparr>token = Some ''abc'', role = Some ''teacher'', user_id = Some ''7'', name = None\<rparr>
       = [''token'' \<mapsto> ''abc'', ''role'' \<mapsto> ''teacher'', ''user_id'' \<mapsto> ''7''] ''user_name''
   \<and> [''token'' \<mapsto> ''abc''] ''role'' = None
   \<and> bootstrap [''token'' \<mapsto> ''abc''] = None"
proof -
  have produced:
    "bootstrap [''token'' \<mapsto> ''abc'', ''role'' \<mapsto> ''teacher'', ''user_id'' \<mapsto> ''7'']
       = Some \<lparr>token = Some ''abc'', role = Some ''teacher'', user_id = Some ''7'', name = None\<rparr>"
    by (simp add: bootstrap_eq truthy_def)
  have no_role: "[''token'' \<mapsto> ''abc''] ''role'' = (None :: string option)"
    by simp
  show ?thesis
    using produced no_role
      C3_bootstrap_session
        [of "[''token'' \<mapsto> ''abc'', ''role'' \<mapsto> ''teacher'', ''user_id'' \<mapsto> ''7'']"
            "\<lparr>token = Some ''abc'', role = Some ''teacher'', user_id = Some ''7'', name = None\<rparr>"
            "[''token'' \<mapsto> ''abc'']"]
    by simp
qed

text \<open>
  C4. For every present session the decision at \<open>/\<close> is the dashboard of its role:
  the student dashboard for \<open>student\<close>, the teacher dashboard for \<open>teacher\<close>, and the
  counselor dashboard for every other value of the role, \<open>counselor\<close>, unknown roles and
  a missing role alike.
\<close>

theorem C4_root_dashboard:
  "decide (Some S) ''/'' =
     Some (Render (if role S = Some ''student'' then StudentDashboard
                   else if role S = Some ''teacher'' then TeacherDashboard
                   else CounselorDashboard))"
  by (simp add: decide_root_present)

theorem C4_root_dashboard_witness:
  "decide (Some \<lparr>token = Some ''t'', role = Some ''student'', user_id = None, name = None\<rparr>) ''/''
     = Some (Render StudentDashboard)
   \<and> decide (Some \<lparr>token = Some ''t'', role = Some ''teacher'', user_id = None, name = None\<rparr>) ''/''
     = Some (Render TeacherDashboard)
   \<and> decide (Some \<lparr>token = Some ''t'', role = Some ''counselor'', user_id = None, name = None\<rparr>) ''/''
     = Some (Render CounselorDashboard)
   \<and> decide (Some \<lparr>token = Some ''t'', role = Some ''admin'', user_id = None, name = None\<rparr>) ''/''
     = Some (Render CounselorDashboard)"
  using
    C4_root_dashboard [of "\<lparr>token = Some ''t'', role = Some ''student'', user_id = None, name = None\<rparr>"]
    C4_root_dashboard [of "\<lparr>token = Some ''t'', role = Some ''teacher'', user_id = None, name = None\<rparr>"]
    C4_root_dashboard [of "\<lparr>token = Some ''t'', role = Some ''counselor'', user_id = None, name = None\<rparr>"]
    C4_root_dashboard [of "\<lparr>token = Some ''t'', role = Some ''admin'', user_id = None, name = None\<rparr>"]
  by simp

text \<open>
  C5. At the public paths \<open>/login\<close> and \<open>/signup\<close> an absent session is shown the
  page of the path, and every present session is redirected to \<open>/\<close>.
\<close>

theorem C5_public_paths:
  "decide None ''/login'' = Some (Render Login)
   \<and> decide None ''/signup'' = Some (Render Signup)
   \<and> decide (Some S) ''/login'' = Some (RedirectTo ''/'')
   \<and> decide (Some S) ''/signup'' = Some (RedirectTo ''/'')"
  by (simp add: decide_login decide_signup)

text \<open>
  C6. At \<open>/chat\<close> every present session, whatever its role, is shown the chat page, and
  an absent session is redirected to \<open>/login\<close>.
\<close>

theorem C6_chat:
  "decide (Some S) ''/chat'' = Some (Render Chat)
   \<and> decide None ''/chat'' = Some (RedirectTo ''/login'')"
  by (simp add: decide_chat)

theorem C5_public_paths_witness:
  "decide None ''/login'' = Some (Render Login)
   \<and> decide None ''/signup'' = Some (Render Signup)
   \<and> decide (Some \<lparr>token = Some ''abc'', role = Some ''teacher'',
                    user_id = Some ''7'', name = Some ''Ann''\<rparr>) ''/login''
       = Some (RedirectTo ''/'')
   \<and> decide (Some \<lparr>token = Some ''abc'', role = Some ''teacher'',
                    user_id = Some ''7'', name = Some ''Ann''\<rparr>) ''/signup''
       = Some (RedirectTo ''/'')"
  using C5_public_paths [of "\<lparr>token = Some ''abc'', role = Some ''teacher'',
                              user_id = Some ''7'', name = Some ''Ann''\<rparr>"]
  by simp

theorem C6_chat_witness:
  "decide (Some \<lparr>token = Some ''abc'', role = Some ''admin'',
                  user_id = None, name = None\<rparr>) ''/chat'' = Some (Render Chat)
   \<and> decide None ''/chat'' = Some (RedirectTo ''/login'')"
  using C6_chat [of "\<lparr>token = Some ''abc'', role = Some ''admin'',
                      user_id = None, name = None\<rparr>"]
  by simp




text \<open>
  C8. \<open>handleLogout\<close> is idempotent: a second call leaves the state of the first. In
  that state the session is absent, the storage holds no key at all (so none of
  \<open>token\<close>, \<open>role\<close>, \<open>user_id\<close>, \<open>user_name\<close>), and the decision at \<open>/\<close> is the
  redirection to \<open>/login\<close>.
\<close>

theorem C8_logout_idempotent:
  "handleLogout (handleLogout s) = handleLogout s
   \<and> user (handleLogout s) = None
   \<and> localStorage (handleLogout s) = Map.empty
   \<and> getItem (localStorage (handleLogout s)) ''token'' = None
   \<and> getItem (localStorage (handleLogout s)) ''role'' = None
   \<and> getItem (localStorage (handleLogout s)) ''user_id'' = None
   \<and> getItem (localStorage (handleLogout s)) ''user_name'' = None
   \<and> decide (user (handleLogout s)) ''/'' = Some (RedirectTo ''/login'')
   \<and> decide (user (handleLogout (handleLogout s))) ''/'' = Some (RedirectTo ''/login'')"
  by (simp add: handleLogout_def clear_def getItem_def decide_root_absent)

theorem C8_logout_idempotent_witness:
  "handleLogout (handleLogout
       \<lparr>localStorage = [''token'' \<mapsto> ''abc'', ''role'' \<mapsto> ''teacher''],
        user = Some \<lparr>token = Some ''abc'', role = Some ''teacher'',
                     user_id = None, name = None\<rparr>,
        loading = False\<rparr>)
     = handleLogout
       \<lparr>localStorage = [''token'' \<mapsto> ''abc'', ''role'' \<mapsto> ''teacher''],
        user = Some \<lparr>token = Some ''abc'', role = Some ''teacher'',
                     user_id = None, name = None\<rparr>,
        loading = False\<rparr>
   \<and> getItem (localStorage (handleLogout
       \<lparr>localStorage = [''token'' \<mapsto> ''abc'', ''role'' \<mapsto> ''teacher''],
        user = Some \<lparr>token = Some ''abc'', role = Some ''teacher'',
                     user_id = None, name = None\<rparr>,
        loading = False\<rparr>)) ''token'' = None"
  using C8_logout_idempotent
    [of "\<lparr>localStorage = [''token'' \<mapsto> ''abc'', ''role'' \<mapsto> ''teacher''],
          user = Some \<lparr>token = Some ''abc'', role = Some ''teacher'',
                       user_id = None, name = None\<rparr>,
          loading = False\<rparr>"]
  by blast

text \<open>
  C9. Two present sessions with the same role receive the same decision at every
  pathname: the token, the user id and the name play no part in routing.
\<close>

theorem C9_role_only:
  "role S1 = role S2 \<Longrightarrow> decide (Some S1) p = decide (Some S2) p"
  by (simp add: decide_def decideWith_def Routes_def optional_role_def)

theorem C9_role_only_witness:
  "role \<lparr>token = Some ''abc'', role = Some ''teacher'', user_id = Some ''7'', name = Some ''Ann''\<rparr>
     = role \<lparr>token = Some ''xyz'', role = Some ''teacher'', user_id = Some ''9'', name = None\<rparr>
   \<and> decide (Some \<lparr>token = Some ''abc'', role = Some ''teacher'',
                    user_id = Some ''7'', name = Some ''Ann''\<rparr>) ''/teacher''
     = decide (Some \<lparr>token = Some ''xyz'', role = Some ''teacher'',
                      user_id = Some ''9'', name = None\<rparr>) ''/teacher''"
  using C9_role_only
    [of "\<lparr>token = Some ''abc'', role = Some ''teacher'', user_id = Some ''7'', name = Some ''Ann''\<rparr>"
        "\<lparr>token = Some ''xyz'', role = Some ''teacher'', user_id = Some ''9'', name = None\<rparr>"
        "''/teacher''"]
  by simp

text \<open>
  C10. \<open>handleLogin\<close> changes the session in memory and nothing else: the storage after
  it is the storage before it, so a new process started on that storage finds the
  storage, and the session it bootstraps, exactly as a process started before the login
  would. Of the three operations of \<open>App\<close>, the mount effect and \<open>handleLogin\<close> leave
  the storage as it is, and \<open>handleLogout\<close> alone changes it (to the empty storage).
\<close>

theorem C10_login_frame:
  "localStorage (handleLogin S s) = localStorage s
   \<and> loading (handleLogin S s) = loading s
   \<and> user (handleLogin S s) = Some S
   \<and> localStorage (useEffect (useState (localStorage (handleLogin S s)))) = localStorage s
   \<and> bootstrap (localStorage (handleLogin S s)) = bootstrap (localStorage s)
   \<and> localStorage (useEffect s) = localStorage s
   \<and> localStorage (handleLogout s) = Map.empty"
  by (simp add: handleLogin_def handleLogout_def clear_def useEffect_def useState_def Let_def)

theorem C10_login_frame_witness:
  "localStorage (handleLogin
       \<lparr>token = Some ''abc'', role = Some ''teacher'', user_id = Some ''7'', name = Some ''Ann''\<rparr>
       (useEffect (useState [''role'' \<mapsto> ''student''])))
     = localStorage (useEffect (useState [''role'' \<mapsto> ''student'']))
   \<and> bootstrap (localStorage (handleLogin
       \<lparr>token = Some ''abc'', role = Some ''teacher'', user_id = Some ''7'', name = Some ''Ann''\<rparr>
       (useEffect (useState [''role'' \<mapsto> ''student'']))))
     = bootstrap (localStorage (useEffect (useState [''role'' \<mapsto> ''student''])))"
  using C10_login_frame
    [of "\<lparr>token = Some ''abc'', role = Some ''teacher'', user_id = Some ''7'', name = Some ''Ann''\<rparr>"
        "useEffect (useState [''role'' \<mapsto> ''student''])"]
  by simp

end
